theory Spec2Isabelle
  imports Complex_Main
begin

section \<open>Python values, errors and paths\<close>

text \<open>
  Every \<^verbatim>\<open>raise\<close> of \<^verbatim>\<open>train.py\<close> is a value: reading a local name that was never
  bound (\<^verbatim>\<open>UnboundLocalError\<close>, with the name), dividing or taking a remainder by zero
  (\<^verbatim>\<open>ZeroDivisionError\<close>, with the divisor's source expression) and opening a file that
  does not exist. Python's floats are modelled by \<^typ>\<open>real\<close>: the comparisons
  \<^verbatim>\<open>>\<close> and \<^verbatim>\<open>>=\<close> are exact on floats, rounding in sums and NaN are left out.
\<close>

datatype py_error =
    UnboundLocalError string
  | ZeroDivisionError string
  | FileNotFoundError string

type_synonym 'a result = "py_error + 'a"

text \<open>\<^verbatim>\<open>os.path.join(a, b)\<close> on POSIX, for two components.\<close>

definition os_path_join :: "string \<Rightarrow> string \<Rightarrow> string" where
  "os_path_join a b =
     (if b \<noteq> [] \<and> hd b = CHR ''/'' then b
      else if a = [] \<or> last a = CHR ''/'' then a @ b
      else a @ ''/'' @ b)"

section \<open>Configuration and collaborators\<close>

text \<open>The fields of \<^verbatim>\<open>params\<close> that \<^verbatim>\<open>train.py\<close> reads in the two functions below.\<close>

record params =
  num_epochs :: int
  threshold :: real
  update_grad_every :: int
  save_every :: int

text \<open>
  The model with its gradient buffers (\<open>'w\<close>) and the optimizer (\<open>'o\<close>): what
  \<^verbatim>\<open>model.state_dict()\<close> and \<^verbatim>\<open>optimizer.state_dict()\<close> snapshot.
\<close>

record ('w, 'o) net =
  model_state :: 'w
  optimizer_state :: 'o

text \<open>What \<^verbatim>\<open>evaluate\<close> returns: \<^verbatim>\<open>stats['f1']['macro_f1']\<close>, \<^verbatim>\<open>stats['loss_avg']\<close>, and
  the key \<^verbatim>\<open>"epoch"\<close> that the orchestrator adds to a best summary.\<close>

record stats =
  macro_f1 :: real
  stats_loss_avg :: real
  stats_epoch :: "int option"

text \<open>A value of the summary dictionary of one training pass.\<close>

datatype 'v summary_value = Metric 'v | Scalar real

text \<open>
  The collaborators that \<^verbatim>\<open>train.py\<close> imports and calls (PyTorch, \<^verbatim>\<open>utils.Accumulate\<close>,
  \<^verbatim>\<open>metrics\<close>, \<^verbatim>\<open>evaluate\<close>), as parameters. \<open>'d\<close> is a batch's input, \<open>'t\<close> its target
  tensor, \<open>'v\<close> a metric's value.
  \<^item> \<open>train_mode\<close>: \<^verbatim>\<open>model.train()\<close>;
  \<^item> \<open>forward\<close>: \<^verbatim>\<open>model(data)\<close>, the score matrix of the batch;
  \<^item> \<open>criterion\<close>: \<^verbatim>\<open>loss_fn(y_pred.float(), target.float())\<close>, read by \<^verbatim>\<open>loss.item()\<close>;
  \<^item> \<open>backward\<close>: \<^verbatim>\<open>loss.backward()\<close>, adding the batch's gradients to the buffers;
  \<^item> \<open>opt_step\<close>, \<open>zero_grad\<close>: \<^verbatim>\<open>optimizer.step()\<close>, \<^verbatim>\<open>optimizer.zero_grad()\<close>;
  \<^item> \<open>target_int32\<close>: \<^verbatim>\<open>target.data.cpu().detach().numpy().astype(np.int32)\<close>;
  \<^item> \<open>accumulate_call\<close>: \<^verbatim>\<open>accumulate()\<close>, from the arguments of the \<^verbatim>\<open>update\<close> calls;
  \<^item> \<open>metrics\<close>: the dictionary of metric functions (\<^verbatim>\<open>target_names\<close> applied);
  \<^item> \<open>evaluate\<close>: \<^verbatim>\<open>evaluate(model, loss_fn, loader, ...)\<close>.
  A data loader is the list of batches it yields.
\<close>

record ('w, 'o, 'd, 't, 'v) env =
  train_mode :: "('w, 'o) net \<Rightarrow> ('w, 'o) net"
  forward :: "('w, 'o) net \<Rightarrow> 'd \<Rightarrow> real list list"
  criterion :: "real list list \<Rightarrow> 't \<Rightarrow> real"
  backward :: "('w, 'o) net \<Rightarrow> 'd \<Rightarrow> 't \<Rightarrow> ('w, 'o) net"
  opt_step :: "('w, 'o) net \<Rightarrow> ('w, 'o) net"
  zero_grad :: "('w, 'o) net \<Rightarrow> ('w, 'o) net"
  target_int32 :: "'t \<Rightarrow> int list list"
  accumulate_call ::
    "(int list list \<times> int list list) list \<Rightarrow> int list list \<times> int list list"
  metrics :: "string \<rightharpoonup> (int list list \<Rightarrow> int list list \<Rightarrow> 'v)"
  evaluate :: "('w, 'o) net \<Rightarrow> ('d \<times> 't) list \<Rightarrow> stats"

section \<open>\<^verbatim>\<open>train_one_epoch\<close>\<close>

text \<open>
  The state of one training pass. \<open>tnet\<close> is the model and optimizer being mutated;
  \<open>loss_batch\<close> is the list of that name; \<open>updates\<close> are the arguments of the calls
  \<^verbatim>\<open>accumulate.update(outputs_batch, targets_batch)\<close> in order; \<open>printed\<close> is what
  \<^verbatim>\<open>print(y_pred)\<close> wrote; \<open>last_iter\<close> holds the bindings of \<^verbatim>\<open>i\<close> and \<^verbatim>\<open>loss\<close> that
  the loop leaves behind (\<open>None\<close> while they are unbound). \<open>pending\<close> lists the batches
  whose gradients are in the buffers (\<^verbatim>\<open>backward\<close> since the last \<^verbatim>\<open>zero_grad\<close>), and
  \<open>applied\<close> has one entry per \<^verbatim>\<open>optimizer.step()\<close>: the batches whose gradients that
  step applied.
\<close>

record ('w, 'o) trainer =
  tnet :: "('w, 'o) net"
  pending :: "nat list"
  applied :: "nat list list"
  loss_batch :: "real list"
  updates :: "(int list list \<times> int list list) list"
  printed :: "real list list list"
  last_iter :: "(nat \<times> real) option"

definition init_trainer :: "('w, 'o, 'd, 't, 'v) env \<Rightarrow> ('w, 'o) net \<Rightarrow> ('w, 'o) trainer" where
  "init_trainer E m =
     \<lparr>tnet = train_mode E m, pending = [], applied = [], loss_batch = [],
      updates = [], printed = [], last_iter = None\<rparr>"

text \<open>\<^verbatim>\<open>(y_pred... > params.threshold).astype(np.int32)\<close>, elementwise.\<close>

definition binarize_vec :: "real \<Rightarrow> real list \<Rightarrow> int list" where
  "binarize_vec thr ys = map (\<lambda>y. if y > thr then 1 else 0) ys"

definition binarize :: "real \<Rightarrow> real list list \<Rightarrow> int list list" where
  "binarize thr ys = map (binarize_vec thr) ys"

text \<open>\<^verbatim>\<open>optimizer.step(); optimizer.zero_grad(); loss_batch.append(loss.item())\<close>.\<close>

definition apply_gradients ::
  "('w, 'o, 'd, 't, 'v) env \<Rightarrow> real \<Rightarrow> ('w, 'o) trainer \<Rightarrow> ('w, 'o) trainer" where
  "apply_gradients E loss s =
     s\<lparr>tnet := zero_grad E (opt_step E (tnet s)),
       applied := applied s @ [pending s],
       pending := [],
       loss_batch := loss_batch s @ [loss]\<rparr>"

text \<open>The body of the training loop for batch \<open>i\<close> (0-based, as \<^verbatim>\<open>enumerate\<close> counts).\<close>

definition train_batch ::
  "('w, 'o, 'd, 't, 'v) env \<Rightarrow> params \<Rightarrow> nat \<Rightarrow> 'd \<times> 't \<Rightarrow> ('w, 'o) trainer
     \<Rightarrow> ('w, 'o) trainer result" where
  "train_batch E P i b s =
     (let data = fst b; target = snd b;
          y_pred = forward E (tnet s) data;
          loss = criterion E y_pred target;
          s1 = s\<lparr>tnet := backward E (tnet s) data target, pending := pending s @ [i]\<rparr>
      in if update_grad_every P = 0 then Inl (ZeroDivisionError ''params.update_grad_every'')
         else
           let s2 = (if (int i + 1) mod update_grad_every P = 0
                     then apply_gradients E loss s1 else s1);
               outputs_batch = binarize (threshold P) y_pred;
               targets_batch = target_int32 E target
           in Inr (s2\<lparr>updates := updates s2 @ [(outputs_batch, targets_batch)],
                      printed := printed s2 @ [y_pred],
                      last_iter := Some (i, loss)\<rparr>))"

fun batch_loop ::
  "('w, 'o, 'd, 't, 'v) env \<Rightarrow> params \<Rightarrow> nat \<Rightarrow> ('d \<times> 't) list \<Rightarrow> ('w, 'o) trainer
     \<Rightarrow> ('w, 'o) trainer result" where
  "batch_loop E P i [] s = Inr s"
| "batch_loop E P i (b # bs) s =
     (case train_batch E P i b s of
        Inl e \<Rightarrow> Inl e
      | Inr s' \<Rightarrow> batch_loop E P (Suc i) bs s')"

text \<open>
  The \<^verbatim>\<open>else\<close> clause of the \<^verbatim>\<open>for\<close> loop (the loop has no \<^verbatim>\<open>break\<close>, so it always runs):
  \<^verbatim>\<open>if (i + 1) % params.update_grad_every != 0: ...\<close>. The name \<^verbatim>\<open>i\<close> is read first.
\<close>

definition tail_flush ::
  "('w, 'o, 'd, 't, 'v) env \<Rightarrow> params \<Rightarrow> ('w, 'o) trainer \<Rightarrow> ('w, 'o) trainer result" where
  "tail_flush E P s =
     (case last_iter s of
        None \<Rightarrow> Inl (UnboundLocalError ''i'')
      | Some (i, loss) \<Rightarrow>
          if update_grad_every P = 0 then Inl (ZeroDivisionError ''params.update_grad_every'')
          else if (int i + 1) mod update_grad_every P \<noteq> 0
               then Inr (apply_gradients E loss s)
               else Inr s)"

text \<open>
  Lines 82 to 88: \<^verbatim>\<open>accumulate()\<close>, the dictionary comprehension over \<^verbatim>\<open>metrics\<close>, and
  \<^verbatim>\<open>summary_batch["loss_avg"] = sum(loss_batch) * 1./len(loss_batch)\<close>.
\<close>

definition epoch_summary ::
  "('w, 'o, 'd, 't, 'v) env \<Rightarrow> ('w, 'o) trainer \<Rightarrow> (string \<rightharpoonup> 'v summary_value) result" where
  "epoch_summary E s =
     (let outputs = fst (accumulate_call E (updates s));
          targets = snd (accumulate_call E (updates s));
          summary_batch = (\<lambda>metric. map_option (\<lambda>f. Metric (f outputs targets)) (metrics E metric))
      in if length (loss_batch s) = 0 then Inl (ZeroDivisionError ''len(loss_batch)'')
         else Inr (summary_batch(''loss_avg'' \<mapsto>
                Scalar (sum_list (loss_batch s) * 1 / real (length (loss_batch s))))))"

text \<open>
  \<^verbatim>\<open>train_one_epoch\<close> returns the summary; the model returns with it the final state of
  the pass, whose \<open>tnet\<close> is the mutated model and optimizer.
\<close>

definition train_one_epoch ::
  "('w, 'o, 'd, 't, 'v) env \<Rightarrow> params \<Rightarrow> ('d \<times> 't) list \<Rightarrow> ('w, 'o) net
     \<Rightarrow> ((string \<rightharpoonup> 'v summary_value) \<times> ('w, 'o) trainer) result" where
  "train_one_epoch E P data_loader m =
     (case batch_loop E P 0 data_loader (init_trainer E m) of
        Inl e \<Rightarrow> Inl e
      | Inr s1 \<Rightarrow>
          (case tail_flush E P s1 of
             Inl e \<Rightarrow> Inl e
           | Inr s2 \<Rightarrow>
               (case epoch_summary E s2 of
                  Inl e \<Rightarrow> Inl e
                | Inr summary_batch \<Rightarrow> Inr (summary_batch, s2))))"

section \<open>\<^verbatim>\<open>train_and_evaluate\<close>\<close>

text \<open>The dictionary \<^verbatim>\<open>state\<close> that is handed to \<^verbatim>\<open>utils.save_checkpoint\<close>.\<close>

record ('w, 'o) checkpoint =
  epoch :: int
  state_dict :: 'w
  optim_dict :: 'o

text \<open>
  One call \<^verbatim>\<open>utils.save_checkpoint(state, is_best, directory, flag)\<close>, by its four
  arguments; \<open>sc_periodic\<close> is the last one.
\<close>

record ('w, 'o) save_call =
  sc_state :: "('w, 'o) checkpoint"
  sc_is_best :: bool
  sc_dir :: string
  sc_periodic :: bool

text \<open>
  The four kinds of file that \<^verbatim>\<open>utils.save_dict_to_json\<close> is called on, under
  \<^verbatim>\<open>exp_dir/metrics/name/\<close>: \<^verbatim>\<open>train/epoch_N_train_f1.json\<close>,
  \<^verbatim>\<open>test/epoch_N_test_f1.json\<close>, \<^verbatim>\<open>train/best_train_f1.json\<close> and
  \<^verbatim>\<open>test/best_test_f1.json\<close>.
\<close>

datatype json_path = Epoch_train_f1 int | Epoch_test_f1 int | Best_train_f1 | Best_test_f1

text \<open>The values of the loop's local variables at the end of one iteration.\<close>

record epoch_entry =
  h_epoch :: int
  h_train_macro_f1 :: real
  h_test_macro_f1 :: real
  h_is_train_best :: bool
  h_is_test_best :: bool
  h_best_train :: real
  h_best_test :: real

text \<open>
  The state of the orchestrator: the model and optimizer, the two best-trackers, the
  calls made to \<^verbatim>\<open>save_dict_to_json\<close> and \<^verbatim>\<open>save_checkpoint\<close> in order, the bindings
  of \<^verbatim>\<open>state\<close> and \<^verbatim>\<open>is_test_best\<close> that the loop leaves behind (\<open>None\<close> while unbound),
  and one \<open>epoch_entry\<close> per completed iteration.
\<close>

record ('w, 'o) run =
  model_opt :: "('w, 'o) net"
  best_train_macro_f1 :: real
  best_test_macro_f1 :: real
  json_saves :: "(json_path \<times> stats) list"
  checkpoint_saves :: "('w, 'o) save_call list"
  last_state :: "(('w, 'o) checkpoint \<times> bool) option"
  history :: "epoch_entry list"

definition init_run :: "('w, 'o) net \<Rightarrow> ('w, 'o) run" where
  "init_run m =
     \<lparr>model_opt = m, best_train_macro_f1 = 0.0, best_test_macro_f1 = 0.0,
      json_saves = [], checkpoint_saves = [], last_state = None, history = []\<rparr>"

text \<open>\<^verbatim>\<open>os.path.join(exp_dir, "model_states", f"{name}")\<close>.\<close>

definition model_states_dir :: "string \<Rightarrow> string \<Rightarrow> string" where
  "model_states_dir exp_dir name = os_path_join (os_path_join exp_dir ''model_states'') name"

text \<open>The body of the epoch loop, lines 109 to 178.\<close>

definition epoch_step ::
  "('w, 'o, 'd, 't, 'v) env \<Rightarrow> params \<Rightarrow> ('d \<times> 't) list \<Rightarrow> ('d \<times> 't) list \<Rightarrow> string \<Rightarrow> string
     \<Rightarrow> int \<Rightarrow> ('w, 'o) run \<Rightarrow> ('w, 'o) run result" where
  "epoch_step E P train_loader test_loader exp_dir name ep r =
     (case train_one_epoch E P train_loader (model_opt r) of
        Inl e \<Rightarrow> Inl e
      | Inr (_, tr) \<Rightarrow>
          let m = tnet tr;
              test_stats = evaluate E m test_loader;
              train_stats = evaluate E m train_loader;
              train_macro_f1 = macro_f1 train_stats;
              is_train_best = (train_macro_f1 \<ge> best_train_macro_f1 r);
              test_macro_f1 = macro_f1 test_stats;
              is_test_best = (test_macro_f1 \<ge> best_test_macro_f1 r);
              r0 = r\<lparr>model_opt := m,
                     json_saves := json_saves r @
                       [(Epoch_train_f1 (ep + 1), train_stats),
                        (Epoch_test_f1 (ep + 1), test_stats)]\<rparr>;
              r1 = (if is_train_best
                    then r0\<lparr>best_train_macro_f1 := train_macro_f1,
                            json_saves := json_saves r0 @
                              [(Best_train_f1, train_stats\<lparr>stats_epoch := Some (ep + 1)\<rparr>)]\<rparr>
                    else r0);
              r2 = (if is_test_best
                    then r1\<lparr>best_test_macro_f1 := test_macro_f1,
                            json_saves := json_saves r1 @
                              [(Best_test_f1, test_stats\<lparr>stats_epoch := Some (ep + 1)\<rparr>)]\<rparr>
                    else r1);
              state = \<lparr>epoch = ep + 1, state_dict = model_state m,
                       optim_dict = optimizer_state m\<rparr>
          in if save_every P = 0 then Inl (ZeroDivisionError ''params.save_every'')
             else Inr (r2\<lparr>checkpoint_saves := checkpoint_saves r2 @
                             [\<lparr>sc_state = state, sc_is_best = is_test_best,
                               sc_dir = model_states_dir exp_dir name,
                               sc_periodic = ((ep + 1) mod save_every P = 0)\<rparr>],
                           last_state := Some (state, is_test_best),
                           history := history r2 @
                             [\<lparr>h_epoch = ep,
                               h_train_macro_f1 = train_macro_f1,
                               h_test_macro_f1 = test_macro_f1,
                               h_is_train_best = is_train_best,
                               h_is_test_best = is_test_best,
                               h_best_train = best_train_macro_f1 r2,
                               h_best_test = best_test_macro_f1 r2\<rparr>]\<rparr>))"

text \<open>\<^verbatim>\<open>for epoch in range(start_epoch, params.num_epochs)\<close>, over the list of its epochs.\<close>

fun epoch_loop ::
  "('w, 'o, 'd, 't, 'v) env \<Rightarrow> params \<Rightarrow> ('d \<times> 't) list \<Rightarrow> ('d \<times> 't) list \<Rightarrow> string \<Rightarrow> string
     \<Rightarrow> int list \<Rightarrow> ('w, 'o) run \<Rightarrow> ('w, 'o) run result" where
  "epoch_loop E P train_loader test_loader exp_dir name [] r = Inr r"
| "epoch_loop E P train_loader test_loader exp_dir name (ep # eps) r =
     (case epoch_step E P train_loader test_loader exp_dir name ep r of
        Inl e \<Rightarrow> Inl e
      | Inr r' \<Rightarrow> epoch_loop E P train_loader test_loader exp_dir name eps r')"

text \<open>
  Modelled from the spec: \<^verbatim>\<open>utils.load_checkpoint\<close> is not among the source files. The
  spec gives the checkpoint store the contract \<^verbatim>\<open>load(path) -> (epoch, model_state,
  optimizer_state)\<close>, restoring the model and the optimizer, and makes a missing file
  fatal. \<open>files\<close> maps a path to the checkpoint record stored there.
\<close>

definition load_checkpoint ::
  "(string \<rightharpoonup> ('w, 'o) checkpoint) \<Rightarrow> string \<Rightarrow> ('w, 'o) net \<Rightarrow> (int \<times> ('w, 'o) net) result" where
  "load_checkpoint files restore_path m =
     (case files restore_path of
        None \<Rightarrow> Inl (FileNotFoundError restore_path)
      | Some ck \<Rightarrow>
          Inr (epoch ck, \<lparr>model_state = state_dict ck, optimizer_state = optim_dict ck\<rparr>))"

text \<open>Lines 95 to 106: the start epoch, and the model and optimizer the loop starts from.\<close>

definition resume_point ::
  "(string \<rightharpoonup> ('w, 'o) checkpoint) \<Rightarrow> string \<Rightarrow> string option \<Rightarrow> ('w, 'o) net
     \<Rightarrow> (int \<times> ('w, 'o) net) result" where
  "resume_point files exp_dir restore_file m =
     (case restore_file of
        None \<Rightarrow> Inr (0, m)
      | Some f \<Rightarrow>
          (case load_checkpoint files (os_path_join exp_dir (f @ ''.pth.tar'')) m of
             Inl e \<Rightarrow> Inl e
           | Inr (loaded_epoch, m') \<Rightarrow> Inr (loaded_epoch + 1, m')))"

text \<open>Lines 180 to 184: the save after the loop reads \<^verbatim>\<open>state\<close> first.\<close>

definition final_save :: "string \<Rightarrow> string \<Rightarrow> ('w, 'o) run \<Rightarrow> ('w, 'o) run result" where
  "final_save exp_dir name r =
     (case last_state r of
        None \<Rightarrow> Inl (UnboundLocalError ''state'')
      | Some (state, is_test_best) \<Rightarrow>
          Inr (r\<lparr>checkpoint_saves := checkpoint_saves r @
                    [\<lparr>sc_state = state, sc_is_best = is_test_best,
                      sc_dir = model_states_dir exp_dir name, sc_periodic = True\<rparr>]\<rparr>))"

definition train_and_evaluate ::
  "('w, 'o, 'd, 't, 'v) env \<Rightarrow> params \<Rightarrow> ('d \<times> 't) list \<Rightarrow> ('d \<times> 't) list \<Rightarrow> string \<Rightarrow> string
     \<Rightarrow> (string \<rightharpoonup> ('w, 'o) checkpoint) \<Rightarrow> string option \<Rightarrow> ('w, 'o) net
     \<Rightarrow> ('w, 'o) run result" where
  "train_and_evaluate E P train_loader test_loader exp_dir name files restore_file m =
     (case resume_point files exp_dir restore_file m of
        Inl e \<Rightarrow> Inl e
      | Inr (start_epoch, m0) \<Rightarrow>
          (case epoch_loop E P train_loader test_loader exp_dir name
                  [start_epoch .. num_epochs P - 1] (init_run m0) of
             Inl e \<Rightarrow> Inl e
           | Inr r \<Rightarrow> final_save exp_dir name r))"

section \<open>Test doubles for the scenarios\<close>

text \<open>
  A stand-in for the collaborators, to run the scenarios on: the input of a batch is the
  loss the criterion reports on it, the model counts the optimizer steps applied to it,
  and \<open>evaluate\<close> reads the macro-F1 of a model that took \<open>n\<close> steps at position
  \<open>n - 1\<close> of a list of scores, one list for the test loader and one for any other.
\<close>

definition score_at :: "real list \<Rightarrow> nat \<Rightarrow> real" where
  "score_at fs n = (if n < length fs then fs ! n else 0)"

definition stub_env ::
  "real list \<Rightarrow> real list \<Rightarrow> (real \<times> int list list) list
     \<Rightarrow> (nat, nat, real, int list list, real) env" where
  "stub_env train_f1 test_f1 test_loader =
     \<lparr>train_mode = (\<lambda>m. m),
      forward = (\<lambda>m d. [[d]]),
      criterion = (\<lambda>y t. sum_list (concat y)),
      backward = (\<lambda>m d t. m),
      opt_step = (\<lambda>m. \<lparr>model_state = Suc (model_state m),
                         optimizer_state = Suc (optimizer_state m)\<rparr>),
      zero_grad = (\<lambda>m. m),
      target_int32 = (\<lambda>t. t),
      accumulate_call = (\<lambda>us. (concat (map fst us), concat (map snd us))),
      metrics = Map.empty,
      evaluate = (\<lambda>m loader.
        \<lparr>macro_f1 = score_at (if loader = test_loader then test_f1 else train_f1)
                      (model_state m - 1),
         stats_loss_avg = 0, stats_epoch = None\<rparr>)\<rparr>"

definition five_batches :: "(real \<times> int list list) list" where
  "five_batches = [(1, [[1]]), (2, [[0]]), (3, [[1]]), (4, [[0]]), (5, [[1]])]"

definition period_two :: params where
  "period_two = \<lparr>num_epochs = 1, threshold = 0.5, update_grad_every = 2, save_every = 1\<rparr>"

definition fresh_net :: "(nat, nat) net" where
  "fresh_net = \<lparr>model_state = 0, optimizer_state = 0\<rparr>"

section \<open>Invariants of one training pass\<close>

text \<open>
  The loss observed at batch \<open>n\<close>: the criterion on what the model predicted for that
  batch (the \<open>n\<close>-th printed prediction) and the batch's target.
\<close>

definition observed_loss ::
  "('w, 'o, 'd, 't, 'v) env \<Rightarrow> ('d \<times> 't) list \<Rightarrow> ('w, 'o) trainer \<Rightarrow> nat \<Rightarrow> real" where
  "observed_loss E loader s n = criterion E (printed s ! n) (snd (loader ! n))"

text \<open>
  The invariant of the training loop after \<open>i\<close> batches, for a positive period \<open>k\<close>:
  one optimizer step per complete group of \<open>k\<close> batches, the batches of the incomplete
  group pending, one loss recorded per step (the loss of the group's last batch).
\<close>

definition pass_inv ::
  "('w, 'o, 'd, 't, 'v) env \<Rightarrow> ('d \<times> 't) list \<Rightarrow> nat \<Rightarrow> nat \<Rightarrow> ('w, 'o) trainer \<Rightarrow> bool" where
  "pass_inv E loader k i s \<longleftrightarrow>
     applied s = map (\<lambda>j. [j * k ..< Suc j * k]) [0 ..< i div k] \<and>
     pending s = [(i div k) * k ..< i] \<and>
     length (printed s) = i \<and>
     loss_batch s = map (\<lambda>j. observed_loss E loader s (Suc j * k - 1)) [0 ..< i div k] \<and>
     last_iter s = (if i = 0 then None else Some (i - 1, observed_loss E loader s (i - 1)))"

text \<open>The state after the loop and its \<^verbatim>\<open>else\<close> clause, in closed form.\<close>

definition pass_done ::
  "('w, 'o, 'd, 't, 'v) env \<Rightarrow> ('d \<times> 't) list \<Rightarrow> nat \<Rightarrow> ('w, 'o) trainer \<Rightarrow> bool" where
  "pass_done E loader k s \<longleftrightarrow>
     applied s = map (\<lambda>j. [j * k ..< min (Suc j * k) (length loader)])
                   [0 ..< (length loader + k - 1) div k] \<and>
     pending s = [] \<and>
     length (printed s) = length loader \<and>
     loss_batch s = map (\<lambda>j. observed_loss E loader s (min (Suc j * k) (length loader) - 1))
                   [0 ..< (length loader + k - 1) div k]"

section \<open>Properties of one training pass\<close>

subsection \<open>The loop invariant\<close>

lemma pass_inv_init: "pass_inv E loader k 0 (init_trainer E m)"
  by (simp add: pass_inv_def init_trainer_def)

lemma period_test: "0 < K \<Longrightarrow> ((int i + 1) mod K = 0) = (Suc i mod nat K = 0)"
proof -
  assume K: "0 < K"
  have "(int i + 1) mod K = int (Suc i) mod int (nat K)" using K by (simp add: add.commute)
  also have "\<dots> = int (Suc i mod nat K)" by (simp only: zmod_int)
  finally show ?thesis by simp
qed

lemma div_Suc_boundary:
  "0 < k \<Longrightarrow> Suc i mod k = 0 \<Longrightarrow> Suc i div k = Suc (i div k) \<and> Suc (i div k) * k = Suc i"
  by (metis add.right_neutral div_Suc div_mult_self1_is_m mult.commute neq0_conv split_mod)

lemma div_Suc_inside: "0 < k \<Longrightarrow> Suc i mod k \<noteq> 0 \<Longrightarrow> Suc i div k = i div k"
  using div_Suc by presburger

lemma group_end_bound: "0 < k \<Longrightarrow> j < i div k \<Longrightarrow> Suc j * k - 1 < i"
  by (metis One_nat_def Suc_pred less_mult_imp_div_less nat_0_less_mult_iff
    not_less_eq zero_less_Suc)

lemma group_start_le: "(i div k) * k \<le> (i::nat)"
  by simp

lemma train_batch_inv:
  assumes K: "0 < update_grad_every P"
    and inv: "pass_inv E loader (nat (update_grad_every P)) i s"
    and i: "i < length loader"
  shows "\<exists>s'. train_batch E P i (loader ! i) s = Inr s' \<and>
               pass_inv E loader (nat (update_grad_every P)) (Suc i) s'"
proof -
  define k where "k = nat (update_grad_every P)"
  have k: "0 < k" using K by (simp add: k_def)
  have test: "((int i + 1) mod update_grad_every P = 0) = (Suc i mod k = 0)"
    unfolding k_def by (rule period_test [OF K])
  have old: "\<And>j. j < i div k \<Longrightarrow> Suc j * k - 1 < i"
    using group_end_bound [OF k] by blast
  show ?thesis
  proof (cases "Suc i mod k = 0")
    case True
    note b = div_Suc_boundary [OF k True]
    show ?thesis
      using K inv i test True b old
      unfolding k_def [symmetric]
      by (simp add: train_batch_def Let_def apply_gradients_def pass_inv_def
          observed_loss_def nth_append)
  next
    case False
    note b = div_Suc_inside [OF k False]
    show ?thesis
      using K inv i test False b old
      unfolding k_def [symmetric]
      by (simp add: train_batch_def Let_def apply_gradients_def pass_inv_def
          observed_loss_def nth_append)
  qed
qed


lemma batch_loop_inv:
  assumes K: "0 < update_grad_every P"
  shows "pass_inv E loader (nat (update_grad_every P)) i s \<Longrightarrow> bs = drop i loader \<Longrightarrow>
         i \<le> length loader \<Longrightarrow>
         \<exists>s'. batch_loop E P i bs s = Inr s' \<and>
              pass_inv E loader (nat (update_grad_every P)) (length loader) s'"
proof (induction bs arbitrary: i s)
  case Nil
  then have "i = length loader" by simp
  then show ?case using Nil.prems(1) by simp
next
  case (Cons b bs)
  have i: "i < length loader"
    using Cons.prems(2) by (metis drop_all list.distinct(1) not_le)
  have b: "loader ! i = b" and bs: "bs = drop (Suc i) loader"
    using Cons.prems(2) i by (metis Cons_nth_drop_Suc list.inject)+
  obtain s1 where s1: "train_batch E P i b s = Inr s1"
    and inv1: "pass_inv E loader (nat (update_grad_every P)) (Suc i) s1"
    using train_batch_inv [OF K Cons.prems(1) i] b by blast
  have "Suc i \<le> length loader" using i by simp
  from Cons.IH [OF inv1 bs this] s1 show ?case by simp
qed

lemma ceil_div_exact: "0 < k \<Longrightarrow> n mod k = 0 \<Longrightarrow> (n + k - 1) div k = n div (k::nat)"
proof -
  assume k: "0 < k" and m: "n mod k = 0"
  obtain q where q: "n = q * k" using m div_mult_mod_eq [of n k] by (metis add.right_neutral)
  have "q * k + k - 1 = q * k + (k - 1)" using k by simp
  moreover have "(q * k + (k - 1)) div k = q + (k - 1) div k"
    using k by (simp only: div_mult_self3)
  moreover have "(k - 1) div k = 0" using k by simp
  ultimately show ?thesis using k q by simp
qed

lemma ceil_div_inexact:
  "0 < k \<Longrightarrow> n mod k \<noteq> 0 \<Longrightarrow> (n + k - 1) div k = Suc (n div (k::nat))"
proof -
  assume k: "0 < k" and m: "n mod k \<noteq> 0"
  define q r where "q = n div k" and "r = n mod k"
  have n: "n = q * k + r" and r: "0 < r" "r < k" using k m by (simp_all add: q_def r_def)
  have "n + k - 1 = Suc q * k + (r - 1)" using n r by simp
  moreover have "(Suc q * k + (r - 1)) div k = Suc q + (r - 1) div k"
    using k by (simp only: div_mult_self3)
  moreover have "(r - 1) div k = 0" using r by simp
  ultimately show ?thesis by (simp add: q_def)
qed

lemma full_group_le: "0 < k \<Longrightarrow> j < n div k \<Longrightarrow> Suc j * k \<le> (n::nat)"
  using Suc_leI less_eq_div_iff_mult_less_eq by blast

lemma last_group_gt: "0 < k \<Longrightarrow> Suc (n div k) * k > (n::nat)"
  using dividend_less_div_times by force

lemma tail_flush_done:
  assumes K: "0 < update_grad_every P"
    and inv: "pass_inv E loader (nat (update_grad_every P)) (length loader) s"
    and ne: "loader \<noteq> []"
  shows "\<exists>s'. tail_flush E P s = Inr s' \<and> pass_done E loader (nat (update_grad_every P)) s' \<and>
           printed s' = printed s \<and> updates s' = updates s"
proof -
  define k where "k = nat (update_grad_every P)"
  define n where "n = length loader"
  have k: "0 < k" using K by (simp add: k_def)
  have n: "0 < n" using ne by (simp add: n_def)
  have nl: "length loader = n" by (simp add: n_def)
  have test: "((int (n - 1) + 1) mod update_grad_every P = 0) = (n mod k = 0)"
    using period_test [OF K, of "n - 1"] n by (simp add: k_def)
  have full: "\<And>j. j < n div k \<Longrightarrow> min (Suc j * k) n = Suc j * k"
    using full_group_le [OF k] by (simp add: min_def)
  show ?thesis
  proof (cases "n mod k = 0")
    case True
    have "n div k * k = n" using True div_mult_mod_eq [of n k] by simp
    then show ?thesis
      using K inv n test True ceil_div_exact [OF k True] full
      unfolding k_def [symmetric] nl
      by (simp add: tail_flush_def pass_inv_def pass_done_def observed_loss_def nl
          cong: map_cong)
  next
    case False
    have "min (Suc (n div k) * k) n = n" using last_group_gt [OF k, of n] by (simp add: min_def)
    then show ?thesis
      using K inv n test False ceil_div_inexact [OF k False] full
      unfolding k_def [symmetric] nl
      by (simp add: tail_flush_def pass_inv_def pass_done_def observed_loss_def nl
          apply_gradients_def cong: map_cong)
  qed
qed


lemma ceil_div_pos: "0 < k \<Longrightarrow> 0 < n \<Longrightarrow> 0 < (n + k - 1) div (k::nat)"
  by (metis Euclidean_Rings.div_eq_0_iff Nat.add_diff_assoc2 One_nat_def
    Suc_leI neq0_conv not_add_less2)

lemma ceiling_as_div:
  assumes K: "0 < K"
  shows "\<lceil>real n / real_of_int K\<rceil> = int ((n + nat K - 1) div nat K)"
proof -
  define k where "k = nat K"
  define q r where "q = n div k" and "r = n mod k"
  have k: "0 < k" using K by (simp add: k_def)
  have Kk: "real_of_int K = real k" using K by (simp add: k_def)
  have "n = q * k + r" by (simp add: q_def r_def)
  then have "real n = real (q * k + r)" by simp
  then have n: "real n = real q * real k + real r" by simp
  have r: "r < k" using k by (simp add: r_def)
  have quot: "real n / real k = real q + real r / real k"
    using k by (simp add: n add_divide_distrib)
  show ?thesis
  proof (cases "r = 0")
    case True
    have "(n + k - 1) div k = q"
      using ceil_div_exact [OF k, of n] True by (simp add: q_def r_def)
    moreover have "\<lceil>real n / real k\<rceil> = int q" using quot True by simp
    ultimately show ?thesis by (simp add: Kk k_def [symmetric])
  next
    case False
    have "(n + k - 1) div k = Suc q"
      using ceil_div_inexact [OF k, of n] False by (simp add: q_def r_def)
    moreover have "\<lceil>real n / real k\<rceil> = int (Suc q)"
    proof (rule ceiling_unique)
      have "0 < real r / real k" using False k by simp
      then show "of_int (int (Suc q)) - 1 < real n / real k" using quot by simp
      have "real r / real k \<le> 1" using r k by simp
      then show "real n / real k \<le> of_int (int (Suc q))" using quot by simp
    qed
    ultimately show ?thesis by (simp add: Kk k_def [symmetric])
  qed
qed

lemma covered_by_group:
  "0 < k \<Longrightarrow> i < n \<Longrightarrow>
   i div k < (n + k - 1) div k \<and> (i div k) * k \<le> i \<and> i < min (Suc (i div k) * k) (n::nat)"
  by (smt (verit) Suc_le_mono ceil_div_exact ceil_div_inexact div_le_mono
    div_less_iff_less_mult div_mod_decomp group_start_le less_eq_Suc_le
    min_less_iff_conj nat_arith.rule0 order_less_le)

lemma train_one_epoch_done:
  assumes K: "0 < update_grad_every P" and ne: "data_loader \<noteq> []"
  shows "\<exists>summary s. train_one_epoch E P data_loader m = Inr (summary, s) \<and>
           pass_done E data_loader (nat (update_grad_every P)) s \<and>
           summary ''loss_avg'' =
             Some (Scalar (sum_list (loss_batch s) / real (length (loss_batch s))))"
proof -
  obtain s1 where s1: "batch_loop E P 0 data_loader (init_trainer E m) = Inr s1"
    and inv1: "pass_inv E data_loader (nat (update_grad_every P)) (length data_loader) s1"
    using batch_loop_inv [OF K pass_inv_init, where bs = data_loader and loader = data_loader] by auto
  obtain s2 where s2: "tail_flush E P s1 = Inr s2"
    and fin: "pass_done E data_loader (nat (update_grad_every P)) s2"
    using tail_flush_done [OF K inv1 ne] by blast
  have "0 < (length data_loader + nat (update_grad_every P) - 1) div nat (update_grad_every P)"
    using K ne by (intro ceil_div_pos) simp_all
  then have len: "length (loss_batch s2) \<noteq> 0"
    using fin by (simp add: pass_done_def)
  show ?thesis
    using s1 s2 fin len by (simp add: train_one_epoch_def epoch_summary_def Let_def)
qed

subsection \<open>Claims about one training pass\<close>

text \<open>
  C10: with a data loader that yields no batch, \<^verbatim>\<open>train_one_epoch\<close> returns no summary
  and does not reach the division of the average: the \<^verbatim>\<open>else\<close> clause of the loop reads
  the loop variable \<^verbatim>\<open>i\<close>, which was never bound, and raises there, whatever the
  accumulation period is.
\<close>

theorem train_one_epoch_empty_loader:
  "train_one_epoch E P [] m = Inl (UnboundLocalError ''i'')"
  by (simp add: train_one_epoch_def init_trainer_def tail_flush_def)

theorem gradient_steps_per_epoch:
  assumes "data_loader \<noteq> []" and "0 < update_grad_every P"
  shows "\<exists>summary s. train_one_epoch E P data_loader m = Inr (summary, s) \<and>
           int (length (applied s)) = \<lceil>real (length data_loader) / real_of_int (update_grad_every P)\<rceil> \<and>
           int (length (loss_batch s)) = \<lceil>real (length data_loader) / real_of_int (update_grad_every P)\<rceil> \<and>
           (\<forall>i < length data_loader. \<exists>g \<in> set (applied s). i \<in> set g) \<and>
           pending s = []"
proof -
  define k where "k = nat (update_grad_every P)"
  have k: "0 < k" using assms(2) by (simp add: k_def)
  obtain summary s where run: "train_one_epoch E P data_loader m = Inr (summary, s)"
    and fin: "pass_done E data_loader k s"
    using train_one_epoch_done [OF assms(2) assms(1)] unfolding k_def by blast
  let ?G = "(length data_loader + k - 1) div k"
  have ceil: "\<lceil>real (length data_loader) / real_of_int (update_grad_every P)\<rceil> = int ?G"
    unfolding k_def by (rule ceiling_as_div [OF assms(2)])
  have app: "applied s = map (\<lambda>j. [j * k ..< min (Suc j * k) (length data_loader)]) [0 ..< ?G]"
    and lb: "length (loss_batch s) = ?G" and pe: "pending s = []"
    using fin by (simp_all add: pass_done_def)
  have cover: "\<exists>g \<in> set (applied s). i \<in> set g" if i: "i < length data_loader" for i
  proof -
    note c = covered_by_group [OF k i]
    have "[i div k * k ..< min (Suc (i div k) * k) (length data_loader)] \<in> set (applied s)"
      unfolding app set_map using c by (intro image_eqI [where x = "i div k"]) simp_all
    moreover have "i \<in> set [i div k * k ..< min (Suc (i div k) * k) (length data_loader)]"
      using c by simp
    ultimately show ?thesis by blast
  qed
  show ?thesis
    using run ceil lb pe cover by (simp add: app)
qed


theorem gradient_steps_per_epoch_witness:
  "five_batches \<noteq> [] \<and> 0 < update_grad_every (period_two\<lparr>update_grad_every := 3\<rparr>) \<and>
   (\<exists>summary s.
      train_one_epoch (stub_env [] [] []) (period_two\<lparr>update_grad_every := 3\<rparr>) five_batches
        fresh_net = Inr (summary, s) \<and>
      int (length (applied s)) = 2 \<and> int (length (loss_batch s)) = 2 \<and>
      (\<forall>i < 5. \<exists>g \<in> set (applied s). i \<in> set g) \<and> pending s = [])"
proof -
  have ne: "five_batches \<noteq> []" by (simp add: five_batches_def)
  have K: "0 < update_grad_every (period_two\<lparr>update_grad_every := 3\<rparr>)" by simp
  have c: "\<lceil>real (length five_batches) / real_of_int 3\<rceil> = 2" by (simp add: five_batches_def)
  have l: "length five_batches = 5" by (simp add: five_batches_def)
  show ?thesis
    using gradient_steps_per_epoch [OF ne K, of "stub_env [] [] []" fresh_net] ne c l
    by simp
qed

lemma group_start_lt:
  assumes k: "0 < k" and j: "j < (n + k - 1) div k"
  shows "j * k < (n::nat)"
proof (rule ccontr)
  assume "\<not> j * k < n"
  then have "n + k - 1 \<le> j * k + (k - 1)" using k by simp
  then have "(n + k - 1) div k \<le> (j * k + (k - 1)) div k" by (rule div_le_mono)
  moreover have "(j * k + (k - 1)) div k = j + (k - 1) div k"
    using k by (simp only: div_mult_self3)
  moreover have "(k - 1) div k = 0" using k by simp
  ultimately show False using j by simp
qed

lemma batch_loop_no_step:
  "int (i + length bs) < update_grad_every P \<Longrightarrow> loss_batch s = [] \<Longrightarrow>
   \<exists>s'. batch_loop E P i bs s = Inr s' \<and> loss_batch s' = []"
proof (induction bs arbitrary: i s)
  case Nil
  then show ?case by simp
next
  case (Cons b bs)
  have "(int i + 1) mod update_grad_every P = int i + 1"
    using Cons.prems(1) by (intro mod_pos_pos_trivial) simp_all
  then obtain s1 where s1: "train_batch E P i b s = Inr s1" and e: "loss_batch s1 = []"
    using Cons.prems by (auto simp add: train_batch_def Let_def)
  have "int (Suc i + length bs) < update_grad_every P" using Cons.prems(1) by simp
  from Cons.IH [OF this e] s1 show ?case by simp
qed

theorem period_exceeds_batches_without_flush:
  assumes "int (length data_loader) < update_grad_every P"
  shows "\<exists>s. batch_loop E P 0 data_loader (init_trainer E m) = Inr s \<and>
             loss_batch s = [] \<and>
             epoch_summary E s = Inl (ZeroDivisionError ''len(loss_batch)'')"
proof -
  have "loss_batch (init_trainer E m) = []" by (simp add: init_trainer_def)
  then obtain s where "batch_loop E P 0 data_loader (init_trainer E m) = Inr s"
    and "loss_batch s = []"
    using batch_loop_no_step [of 0 data_loader P "init_trainer E m" E] assms by auto
  then show ?thesis by (auto simp add: epoch_summary_def Let_def)
qed

theorem period_exceeds_batches_without_flush_witness:
  "int (length five_batches) < update_grad_every (period_two\<lparr>update_grad_every := 8\<rparr>) \<and>
   (\<exists>s. batch_loop (stub_env [] [] []) (period_two\<lparr>update_grad_every := 8\<rparr>) 0 five_batches
           (init_trainer (stub_env [] [] []) fresh_net) = Inr s \<and>
        loss_batch s = [] \<and>
        epoch_summary (stub_env [] [] []) s = Inl (ZeroDivisionError ''len(loss_batch)''))"
proof -
  have h: "int (length five_batches) < update_grad_every (period_two\<lparr>update_grad_every := 8\<rparr>)"
    by (simp add: five_batches_def)
  show ?thesis
    using period_exceeds_batches_without_flush [OF h, of "stub_env [] [] []" fresh_net] h
    by simp
qed

lemma train_batch_updates:
  "train_batch E P i b s = Inr s' \<Longrightarrow>
   updates s' = updates s @ [(binarize (threshold P) (forward E (tnet s) (fst b)), target_int32 E (snd b))] \<and>
   printed s' = printed s @ [forward E (tnet s) (fst b)]"
  by (auto simp add: train_batch_def Let_def apply_gradients_def split: if_splits)

lemma batch_loop_updates:
  "batch_loop E P i bs s = Inr s' \<Longrightarrow>
   map fst (updates s) = map (binarize (threshold P)) (printed s) \<Longrightarrow>
   map fst (updates s') = map (binarize (threshold P)) (printed s') \<and>
   map snd (updates s') = map snd (updates s) @ map (\<lambda>b. target_int32 E (snd b)) bs \<and>
   length (printed s') = length (printed s) + length bs"
proof (induction bs arbitrary: i s)
  case Nil
  then show ?case by simp
next
  case (Cons b bs)
  from Cons.prems(1) obtain s1 where s1: "train_batch E P i b s = Inr s1"
    and rest: "batch_loop E P (Suc i) bs s1 = Inr s'"
    by (auto split: sum.splits)
  note u = train_batch_updates [OF s1]
  have "map fst (updates s1) = map (binarize (threshold P)) (printed s1)"
    using u Cons.prems(2) by simp
  from Cons.IH [OF rest this] u show ?case by simp
qed

lemma tail_flush_updates:
  "tail_flush E P s = Inr s' \<Longrightarrow> updates s' = updates s \<and> printed s' = printed s"
  by (auto simp add: tail_flush_def apply_gradients_def split: option.splits if_splits)


theorem recorded_loss_is_last_of_group:
  "(data_loader \<noteq> [] \<and> 0 < update_grad_every P \<longrightarrow>
      (\<exists>summary s. train_one_epoch E P data_loader m = Inr (summary, s) \<and>
         length (loss_batch s) = length (applied s) \<and>
         (\<forall>j < length (applied s).
            applied s ! j = [j * nat (update_grad_every P) ..<
                             min (Suc j * nat (update_grad_every P)) (length data_loader)] \<and>
            applied s ! j \<noteq> [] \<and>
            loss_batch s ! j = observed_loss E data_loader s (last (applied s ! j))) \<and>
         summary ''loss_avg'' =
           Some (Scalar (sum_list (loss_batch s) / real (length (loss_batch s)))))) \<and>
   (\<exists>summary s.
      train_one_epoch (stub_env [] [] []) period_two five_batches fresh_net = Inr (summary, s) \<and>
      map (observed_loss (stub_env [] [] []) five_batches s) [0 ..< 5] = [1, 2, 3, 4, 5] \<and>
      applied s = [[0, 1], [2, 3], [4]] \<and>
      loss_batch s = [2, 4, 5] \<and>
      summary ''loss_avg'' = Some (Scalar ((2 + 4 + 5) / 3)))"
proof (intro conjI impI)
  assume a: "data_loader \<noteq> [] \<and> 0 < update_grad_every P"
  define k where "k = nat (update_grad_every P)"
  have k: "0 < k" using a by (simp add: k_def)
  let ?n = "length data_loader"
  let ?G = "(?n + k - 1) div k"
  obtain summary s where run: "train_one_epoch E P data_loader m = Inr (summary, s)"
    and fin: "pass_done E data_loader k s"
    and avg: "summary ''loss_avg'' =
      Some (Scalar (sum_list (loss_batch s) / real (length (loss_batch s))))"
    using train_one_epoch_done [of P data_loader E m] a unfolding k_def by blast
  have app: "applied s = map (\<lambda>j. [j * k ..< min (Suc j * k) ?n]) [0 ..< ?G]"
    and lb: "loss_batch s = map (\<lambda>j. observed_loss E data_loader s (min (Suc j * k) ?n - 1))
                              [0 ..< ?G]"
    using fin by (simp_all add: pass_done_def)
  have grp: "applied s ! j = [j * k ..< min (Suc j * k) ?n] \<and> applied s ! j \<noteq> [] \<and>
             loss_batch s ! j = observed_loss E data_loader s (last (applied s ! j))"
    if j: "j < length (applied s)" for j
  proof -
    define a b where "a = j * k" and "b = min (Suc j * k) ?n"
    have jG: "j < ?G" using j by (simp add: app)
    have lt: "a < b"
      using group_start_lt [OF k jG] k by (simp add: a_def b_def)
    have g: "applied s ! j = [a ..< b]" using jG by (simp add: app a_def b_def)
    have ne: "[a ..< b] \<noteq> []" using lt by simp
    have la: "last [a ..< b] = b - 1" using lt by (simp only: last_upt)
    have "loss_batch s ! j = observed_loss E data_loader s (b - 1)"
      using jG by (simp add: lb b_def)
    then show ?thesis using g ne la unfolding a_def b_def by simp
  qed
  have "length (loss_batch s) = length (applied s)" by (simp add: app lb)
  then show "\<exists>summary s. train_one_epoch E P data_loader m = Inr (summary, s) \<and>
         length (loss_batch s) = length (applied s) \<and>
         (\<forall>j < length (applied s).
            applied s ! j = [j * nat (update_grad_every P) ..<
                             min (Suc j * nat (update_grad_every P)) (length data_loader)] \<and>
            applied s ! j \<noteq> [] \<and>
            loss_batch s ! j = observed_loss E data_loader s (last (applied s ! j))) \<and>
         summary ''loss_avg'' =
           Some (Scalar (sum_list (loss_batch s) / real (length (loss_batch s))))"
    using run avg grp unfolding k_def by blast
next
  have five: "[0 ..< 5] = [0, 1, 2, 3, 4]" by (simp add: upt_rec)
  show "\<exists>summary s.
      train_one_epoch (stub_env [] [] []) period_two five_batches fresh_net = Inr (summary, s) \<and>
      map (observed_loss (stub_env [] [] []) five_batches s) [0 ..< 5] = [1, 2, 3, 4, 5] \<and>
      applied s = [[0, 1], [2, 3], [4]] \<and>
      loss_batch s = [2, 4, 5] \<and>
      summary ''loss_avg'' = Some (Scalar ((2 + 4 + 5) / 3))"
    unfolding five
    by (simp add: train_one_epoch_def train_batch_def tail_flush_def epoch_summary_def
        init_trainer_def apply_gradients_def stub_env_def five_batches_def period_two_def
        fresh_net_def observed_loss_def Let_def)
qed

theorem recorded_loss_is_last_of_group_witness:
  "(five_batches \<noteq> [] \<and> 0 < update_grad_every period_two) \<and>
   (\<exists>summary s.
      train_one_epoch (stub_env [] [] []) period_two five_batches fresh_net = Inr (summary, s) \<and>
      length (loss_batch s) = length (applied s) \<and>
      (\<forall>j < length (applied s).
         applied s ! j = [j * 2 ..< min (Suc j * 2) 5] \<and>
         applied s ! j \<noteq> [] \<and>
         loss_batch s ! j =
           observed_loss (stub_env [] [] []) five_batches s (last (applied s ! j))) \<and>
      summary ''loss_avg'' =
        Some (Scalar (sum_list (loss_batch s) / real (length (loss_batch s)))))"
proof -
  have h: "five_batches \<noteq> [] \<and> 0 < update_grad_every period_two"
    by (simp add: five_batches_def period_two_def)
  have k: "nat (update_grad_every period_two) = 2" by (simp add: period_two_def)
  have l: "length five_batches = 5" by (simp add: five_batches_def)
  from recorded_loss_is_last_of_group
    [of five_batches period_two "stub_env [] [] []" fresh_net, THEN conjunct1, rule_format, OF h]
  show ?thesis unfolding k l using h by blast
qed

theorem binarize_strict_every_batch:
  assumes "train_one_epoch E P data_loader m = Inr (summary, s)"
  shows "length (binarize_vec thr ys) = length ys \<and>
         (\<forall>i < length ys. binarize_vec thr ys ! i = (if thr < ys ! i then 1 else 0)) \<and>
         binarize_vec thr [thr] = [0] \<and>
         binarize_vec 0.5 [0.4, 0.5, 0.6] = [0, 0, 1] \<and>
         length (updates s) = length data_loader \<and>
         map fst (updates s) = map (binarize (threshold P)) (printed s) \<and>
         map snd (updates s) = map (\<lambda>b. target_int32 E (snd b)) data_loader"
proof -
  from assms obtain s1 where s1: "batch_loop E P 0 data_loader (init_trainer E m) = Inr s1"
    and s2: "tail_flush E P s1 = Inr s"
    by (auto simp add: train_one_epoch_def split: sum.splits)
  have "map fst (updates (init_trainer E m)) =
        map (binarize (threshold P)) (printed (init_trainer E m))"
    by (simp add: init_trainer_def)
  from batch_loop_updates [OF s1 this] tail_flush_updates [OF s2]
  have u: "map fst (updates s) = map (binarize (threshold P)) (printed s)"
    and t: "map snd (updates s) = map (\<lambda>b. target_int32 E (snd b)) data_loader"
    and n: "length (printed s) = length data_loader"
    by (simp_all add: init_trainer_def)
  have "length (updates s) = length (map fst (updates s))" by simp
  also have "\<dots> = length data_loader" unfolding u using n by simp
  finally have len: "length (updates s) = length data_loader" .
  show ?thesis using u t len by (simp add: binarize_vec_def)
qed

theorem binarize_tie_counterexample:
  "binarize_vec 0.5 [0.4, 0.5, 0.6] \<noteq> [0, 1, 1]"
  by (simp add: binarize_vec_def)

theorem binarize_strict_every_batch_witness:
  "\<exists>summary s.
     train_one_epoch (stub_env [] [] []) period_two five_batches fresh_net = Inr (summary, s) \<and>
     length (updates s) = 5 \<and>
     map fst (updates s) = map (binarize 0.5) (printed s) \<and>
     map snd (updates s) = [[[1]], [[0]], [[1]], [[0]], [[1]]]"
proof -
  obtain summary s where
    run: "train_one_epoch (stub_env [] [] []) period_two five_batches fresh_net = Inr (summary, s)"
    using train_one_epoch_done [of period_two five_batches "stub_env [] [] []" fresh_net]
    by (auto simp add: period_two_def five_batches_def)
  from binarize_strict_every_batch [OF run, of 0 "[]"] run show ?thesis
    by (simp add: five_batches_def period_two_def stub_env_def)
qed

definition train_batches :: "(real \<times> int list list) list" where
  "train_batches = [(1, [[1]])]"

definition test_batches :: "(real \<times> int list list) list" where
  "test_batches = [(2, [[0]])]"

definition three_epochs :: params where
  "three_epochs = \<lparr>num_epochs = 3, threshold = 0.5, update_grad_every = 1, save_every = 2\<rparr>"

definition trajectory :: "('w, 'o) run result \<Rightarrow> (int \<times> bool \<times> bool \<times> real \<times> real) list" where
  "trajectory res =
     (case res of
        Inl e \<Rightarrow> []
      | Inr r \<Rightarrow> map (\<lambda>h. (h_epoch h, h_is_train_best h, h_is_test_best h,
                             h_best_train h, h_best_test h)) (history r))"

lemma upto_0_2: "[0 .. 2] = [0, 1, 2::int]"
  by (simp add: upto.simps)

lemma three_epochs_fields:
  "num_epochs three_epochs = 3" "save_every three_epochs = 2"
  "update_grad_every three_epochs = 1" "threshold three_epochs = 0.5"
  by (simp_all add: three_epochs_def)

lemma loaders_differ: "train_batches \<noteq> test_batches"
  by (simp add: train_batches_def test_batches_def)

lemma stub_evaluate:
  "evaluate (stub_env trf tef tel) m loader =
     \<lparr>macro_f1 = score_at (if loader = tel then tef else trf) (model_state m - 1),
      stats_loss_avg = 0, stats_epoch = None\<rparr>"
  by (simp add: stub_env_def)

lemma stub_epoch:
  "train_one_epoch (stub_env trf tef tel) three_epochs train_batches m =
     Inr (Map.empty(''loss_avg'' \<mapsto> Scalar 1),
          \<lparr>tnet = \<lparr>model_state = Suc (model_state m), optimizer_state = Suc (optimizer_state m)\<rparr>,
           pending = [], applied = [[0]], loss_batch = [1],
           updates = [([[1]], [[1]])], printed = [[[1]]], last_iter = Some (0, 1)\<rparr>)"
  by (simp add: train_one_epoch_def train_batch_def tail_flush_def epoch_summary_def
      init_trainer_def apply_gradients_def stub_env_def train_batches_def three_epochs_def
      binarize_def binarize_vec_def Let_def)

lemma epoch_step_literal:
  assumes t: "train_one_epoch E P trl m = Inr (summary, tr)" and S: "save_every P \<noteq> 0"
  shows "epoch_step E P trl tel exp_dir name ep
           \<lparr>model_opt = m, best_train_macro_f1 = bt, best_test_macro_f1 = be,
            json_saves = js, checkpoint_saves = cs, last_state = ls, history = hs\<rparr> =
         Inr \<lparr>model_opt = tnet tr,
              best_train_macro_f1 =
                (if bt \<le> macro_f1 (evaluate E (tnet tr) trl)
                 then macro_f1 (evaluate E (tnet tr) trl) else bt),
              best_test_macro_f1 =
                (if be \<le> macro_f1 (evaluate E (tnet tr) tel)
                 then macro_f1 (evaluate E (tnet tr) tel) else be),
              json_saves = js @
                [(Epoch_train_f1 (ep + 1), evaluate E (tnet tr) trl),
                 (Epoch_test_f1 (ep + 1), evaluate E (tnet tr) tel)] @
                (if bt \<le> macro_f1 (evaluate E (tnet tr) trl)
                 then [(Best_train_f1, (evaluate E (tnet tr) trl)\<lparr>stats_epoch := Some (ep + 1)\<rparr>)]
                 else []) @
                (if be \<le> macro_f1 (evaluate E (tnet tr) tel)
                 then [(Best_test_f1, (evaluate E (tnet tr) tel)\<lparr>stats_epoch := Some (ep + 1)\<rparr>)]
                 else []),
              checkpoint_saves = cs @
                [\<lparr>sc_state = \<lparr>epoch = ep + 1, state_dict = model_state (tnet tr),
                              optim_dict = optimizer_state (tnet tr)\<rparr>,
                  sc_is_best = (be \<le> macro_f1 (evaluate E (tnet tr) tel)),
                  sc_dir = model_states_dir exp_dir name,
                  sc_periodic = ((ep + 1) mod save_every P = 0)\<rparr>],
              last_state =
                Some (\<lparr>epoch = ep + 1, state_dict = model_state (tnet tr),
                        optim_dict = optimizer_state (tnet tr)\<rparr>,
                      be \<le> macro_f1 (evaluate E (tnet tr) tel)),
              history = hs @
                [\<lparr>h_epoch = ep,
                  h_train_macro_f1 = macro_f1 (evaluate E (tnet tr) trl),
                  h_test_macro_f1 = macro_f1 (evaluate E (tnet tr) tel),
                  h_is_train_best = (bt \<le> macro_f1 (evaluate E (tnet tr) trl)),
                  h_is_test_best = (be \<le> macro_f1 (evaluate E (tnet tr) tel)),
                  h_best_train =
                    (if bt \<le> macro_f1 (evaluate E (tnet tr) trl)
                     then macro_f1 (evaluate E (tnet tr) trl) else bt),
                  h_best_test =
                    (if be \<le> macro_f1 (evaluate E (tnet tr) tel)
                     then macro_f1 (evaluate E (tnet tr) tel) else be)\<rparr>]\<rparr>"
  by (simp add: epoch_step_def Let_def t S)

lemma stub_step:
  "epoch_step (stub_env trf tef test_batches) three_epochs train_batches test_batches exp_dir name ep
           \<lparr>model_opt = m, best_train_macro_f1 = bt, best_test_macro_f1 = be,
            json_saves = js, checkpoint_saves = cs, last_state = ls, history = hs\<rparr> =
   Inr \<lparr>model_opt = \<lparr>model_state = Suc (model_state m),
                      optimizer_state = Suc (optimizer_state m)\<rparr>,
        best_train_macro_f1 =
          (if bt \<le> score_at trf (model_state m) then score_at trf (model_state m) else bt),
        best_test_macro_f1 =
          (if be \<le> score_at tef (model_state m) then score_at tef (model_state m) else be),
        json_saves = js @
          [(Epoch_train_f1 (ep + 1),
            \<lparr>macro_f1 = score_at trf (model_state m), stats_loss_avg = 0, stats_epoch = None\<rparr>),
           (Epoch_test_f1 (ep + 1),
            \<lparr>macro_f1 = score_at tef (model_state m), stats_loss_avg = 0, stats_epoch = None\<rparr>)] @
          (if bt \<le> score_at trf (model_state m)
           then [(Best_train_f1,
                  \<lparr>macro_f1 = score_at trf (model_state m), stats_loss_avg = 0,
                   stats_epoch = Some (ep + 1)\<rparr>)]
           else []) @
          (if be \<le> score_at tef (model_state m)
           then [(Best_test_f1,
                  \<lparr>macro_f1 = score_at tef (model_state m), stats_loss_avg = 0,
                   stats_epoch = Some (ep + 1)\<rparr>)]
           else []),
        checkpoint_saves = cs @
          [\<lparr>sc_state = \<lparr>epoch = ep + 1, state_dict = Suc (model_state m),
                        optim_dict = Suc (optimizer_state m)\<rparr>,
            sc_is_best = (be \<le> score_at tef (model_state m)),
            sc_dir = model_states_dir exp_dir name,
            sc_periodic = ((ep + 1) mod 2 = 0)\<rparr>],
        last_state =
          Some (\<lparr>epoch = ep + 1, state_dict = Suc (model_state m),
                  optim_dict = Suc (optimizer_state m)\<rparr>,
                be \<le> score_at tef (model_state m)),
        history = hs @
          [\<lparr>h_epoch = ep,
            h_train_macro_f1 = score_at trf (model_state m),
            h_test_macro_f1 = score_at tef (model_state m),
            h_is_train_best = (bt \<le> score_at trf (model_state m)),
            h_is_test_best = (be \<le> score_at tef (model_state m)),
            h_best_train =
              (if bt \<le> score_at trf (model_state m) then score_at trf (model_state m) else bt),
            h_best_test =
              (if be \<le> score_at tef (model_state m) then score_at tef (model_state m) else be)\<rparr>]\<rparr>"
  by (simp add: epoch_step_literal [OF stub_epoch] three_epochs_fields stub_evaluate
      loaders_differ)

lemma epoch_step_Inr:
  assumes "epoch_step E P trl tel exp_dir name ep r = Inr r'"
  shows "\<exists>summary tr. train_one_epoch E P trl (model_opt r) = Inr (summary, tr) \<and>
           save_every P \<noteq> 0 \<and>
           model_opt r' = tnet tr \<and>
           best_train_macro_f1 r' =
             (if macro_f1 (evaluate E (tnet tr) trl) \<ge> best_train_macro_f1 r
              then macro_f1 (evaluate E (tnet tr) trl) else best_train_macro_f1 r) \<and>
           best_test_macro_f1 r' =
             (if macro_f1 (evaluate E (tnet tr) tel) \<ge> best_test_macro_f1 r
              then macro_f1 (evaluate E (tnet tr) tel) else best_test_macro_f1 r) \<and>
           history r' = history r @
             [\<lparr>h_epoch = ep,
               h_train_macro_f1 = macro_f1 (evaluate E (tnet tr) trl),
               h_test_macro_f1 = macro_f1 (evaluate E (tnet tr) tel),
               h_is_train_best = (macro_f1 (evaluate E (tnet tr) trl) \<ge> best_train_macro_f1 r),
               h_is_test_best = (macro_f1 (evaluate E (tnet tr) tel) \<ge> best_test_macro_f1 r),
               h_best_train = best_train_macro_f1 r',
               h_best_test = best_test_macro_f1 r'\<rparr>] \<and>
           checkpoint_saves r' = checkpoint_saves r @
             [\<lparr>sc_state = \<lparr>epoch = ep + 1, state_dict = model_state (tnet tr),
                           optim_dict = optimizer_state (tnet tr)\<rparr>,
               sc_is_best = (macro_f1 (evaluate E (tnet tr) tel) \<ge> best_test_macro_f1 r),
               sc_dir = model_states_dir exp_dir name,
               sc_periodic = ((ep + 1) mod save_every P = 0)\<rparr>] \<and>
           last_state r' =
             Some (\<lparr>epoch = ep + 1, state_dict = model_state (tnet tr),
                     optim_dict = optimizer_state (tnet tr)\<rparr>,
                   macro_f1 (evaluate E (tnet tr) tel) \<ge> best_test_macro_f1 r) \<and>
           json_saves r' = json_saves r @
             [(Epoch_train_f1 (ep + 1), evaluate E (tnet tr) trl),
              (Epoch_test_f1 (ep + 1), evaluate E (tnet tr) tel)] @
             (if macro_f1 (evaluate E (tnet tr) trl) \<ge> best_train_macro_f1 r
              then [(Best_train_f1, (evaluate E (tnet tr) trl)\<lparr>stats_epoch := Some (ep + 1)\<rparr>)]
              else []) @
             (if macro_f1 (evaluate E (tnet tr) tel) \<ge> best_test_macro_f1 r
              then [(Best_test_f1, (evaluate E (tnet tr) tel)\<lparr>stats_epoch := Some (ep + 1)\<rparr>)]
              else [])"
proof -
  from assms obtain summary tr where t: "train_one_epoch E P trl (model_opt r) = Inr (summary, tr)"
    by (cases "train_one_epoch E P trl (model_opt r)") (auto simp add: epoch_step_def)
  have S: "save_every P \<noteq> 0"
  proof
    assume "save_every P = 0"
    with assms t show False by (simp add: epoch_step_def Let_def)
  qed
  define ftr where "ftr = macro_f1 (evaluate E (tnet tr) trl)"
  define fte where "fte = macro_f1 (evaluate E (tnet tr) tel)"
  consider (tt) "best_train_macro_f1 r \<le> ftr" "best_test_macro_f1 r \<le> fte"
    | (tf) "best_train_macro_f1 r \<le> ftr" "\<not> best_test_macro_f1 r \<le> fte"
    | (ft) "\<not> best_train_macro_f1 r \<le> ftr" "best_test_macro_f1 r \<le> fte"
    | (ff) "\<not> best_train_macro_f1 r \<le> ftr" "\<not> best_test_macro_f1 r \<le> fte"
    by blast
  then have "model_opt r' = tnet tr \<and>
           best_train_macro_f1 r' =
             (if ftr \<ge> best_train_macro_f1 r then ftr else best_train_macro_f1 r) \<and>
           best_test_macro_f1 r' =
             (if fte \<ge> best_test_macro_f1 r then fte else best_test_macro_f1 r) \<and>
           history r' = history r @
             [\<lparr>h_epoch = ep,
               h_train_macro_f1 = ftr,
               h_test_macro_f1 = fte,
               h_is_train_best = (ftr \<ge> best_train_macro_f1 r),
               h_is_test_best = (fte \<ge> best_test_macro_f1 r),
               h_best_train = best_train_macro_f1 r',
               h_best_test = best_test_macro_f1 r'\<rparr>] \<and>
           checkpoint_saves r' = checkpoint_saves r @
             [\<lparr>sc_state = \<lparr>epoch = ep + 1, state_dict = model_state (tnet tr),
                           optim_dict = optimizer_state (tnet tr)\<rparr>,
               sc_is_best = (fte \<ge> best_test_macro_f1 r),
               sc_dir = model_states_dir exp_dir name,
               sc_periodic = ((ep + 1) mod save_every P = 0)\<rparr>] \<and>
           last_state r' =
             Some (\<lparr>epoch = ep + 1, state_dict = model_state (tnet tr),
                     optim_dict = optimizer_state (tnet tr)\<rparr>,
                   fte \<ge> best_test_macro_f1 r) \<and>
           json_saves r' = json_saves r @
             [(Epoch_train_f1 (ep + 1), evaluate E (tnet tr) trl),
              (Epoch_test_f1 (ep + 1), evaluate E (tnet tr) tel)] @
             (if ftr \<ge> best_train_macro_f1 r
              then [(Best_train_f1, (evaluate E (tnet tr) trl)\<lparr>stats_epoch := Some (ep + 1)\<rparr>)]
              else []) @
             (if fte \<ge> best_test_macro_f1 r
              then [(Best_test_f1, (evaluate E (tnet tr) tel)\<lparr>stats_epoch := Some (ep + 1)\<rparr>)]
              else [])"
  proof cases
    case tt
    with assms t S show ?thesis
      by (simp add: epoch_step_def Let_def ftr_def [symmetric] fte_def [symmetric]) auto
  next
    case tf
    with assms t S show ?thesis
      by (simp add: epoch_step_def Let_def ftr_def [symmetric] fte_def [symmetric]) auto
  next
    case ft
    with assms t S show ?thesis
      by (simp add: epoch_step_def Let_def ftr_def [symmetric] fte_def [symmetric]) auto
  next
    case ff
    with assms t S show ?thesis
      by (simp add: epoch_step_def Let_def ftr_def [symmetric] fte_def [symmetric]) auto
  qed
  then show ?thesis using t S unfolding ftr_def fte_def by blast
qed

lemma epoch_step_total:
  assumes "train_loader \<noteq> []" and "0 < update_grad_every P" and "save_every P \<noteq> 0"
  shows "\<exists>r'. epoch_step E P train_loader test_loader exp_dir name ep r = Inr r'"
proof -
  obtain summary tr where "train_one_epoch E P train_loader (model_opt r) = Inr (summary, tr)"
    using train_one_epoch_done [OF assms(2) assms(1)] by blast
  then show ?thesis using assms(3) by (simp add: epoch_step_def Let_def)
qed

lemma epoch_loop_total:
  assumes "train_loader \<noteq> []" and "0 < update_grad_every P" and "save_every P \<noteq> 0"
  shows "\<exists>r'. epoch_loop E P train_loader test_loader exp_dir name eps r = Inr r'"
proof (induction eps arbitrary: r)
  case Nil
  show ?case by simp
next
  case (Cons ep eps)
  obtain r1 where "epoch_step E P train_loader test_loader exp_dir name ep r = Inr r1"
    using epoch_step_total [OF assms] by blast
  with Cons.IH [of r1] show ?case by simp
qed

lemma epoch_step_best:
  assumes "epoch_step E P trl tel exp_dir name ep r = Inr r'"
  shows "\<exists>h. history r' = history r @ [h] \<and> h_epoch h = ep \<and>
             h_best_train h = best_train_macro_f1 r' \<and>
             h_best_test h = best_test_macro_f1 r' \<and>
             best_train_macro_f1 r \<le> best_train_macro_f1 r' \<and>
             best_test_macro_f1 r \<le> best_test_macro_f1 r'"
proof -
  from epoch_step_Inr [OF assms] obtain tr :: "(_, _) trainer" where
    bt: "best_train_macro_f1 r' =
             (if macro_f1 (evaluate E (tnet tr) trl) \<ge> best_train_macro_f1 r
              then macro_f1 (evaluate E (tnet tr) trl) else best_train_macro_f1 r)"
    and be: "best_test_macro_f1 r' =
             (if macro_f1 (evaluate E (tnet tr) tel) \<ge> best_test_macro_f1 r
              then macro_f1 (evaluate E (tnet tr) tel) else best_test_macro_f1 r)"
    and h: "history r' = history r @
             [\<lparr>h_epoch = ep,
               h_train_macro_f1 = macro_f1 (evaluate E (tnet tr) trl),
               h_test_macro_f1 = macro_f1 (evaluate E (tnet tr) tel),
               h_is_train_best = (macro_f1 (evaluate E (tnet tr) trl) \<ge> best_train_macro_f1 r),
               h_is_test_best = (macro_f1 (evaluate E (tnet tr) tel) \<ge> best_test_macro_f1 r),
               h_best_train = best_train_macro_f1 r',
               h_best_test = best_test_macro_f1 r'\<rparr>]"
    by blast
  have "best_train_macro_f1 r \<le> best_train_macro_f1 r'" unfolding bt by simp
  moreover have "best_test_macro_f1 r \<le> best_test_macro_f1 r'" unfolding be by simp
  ultimately show ?thesis using h by simp
qed

lemma epoch_loop_best:
  "epoch_loop E P trl tel exp_dir name eps r = Inr r' \<Longrightarrow>
   \<exists>hs. history r' = history r @ hs \<and> map h_epoch hs = eps \<and>
        sorted (best_train_macro_f1 r # map h_best_train hs) \<and>
        last (best_train_macro_f1 r # map h_best_train hs) = best_train_macro_f1 r' \<and>
        sorted (best_test_macro_f1 r # map h_best_test hs) \<and>
        last (best_test_macro_f1 r # map h_best_test hs) = best_test_macro_f1 r'"
proof (induction eps arbitrary: r)
  case Nil
  then show ?case by simp
next
  case (Cons ep eps)
  from Cons.prems obtain r1 where
    s1: "epoch_step E P trl tel exp_dir name ep r = Inr r1"
    and rest: "epoch_loop E P trl tel exp_dir name eps r1 = Inr r'"
    by (auto split: sum.splits)
  from epoch_step_best [OF s1] obtain h where
    h: "history r1 = history r @ [h]" "h_epoch h = ep"
      "h_best_train h = best_train_macro_f1 r1" "h_best_test h = best_test_macro_f1 r1"
      "best_train_macro_f1 r \<le> best_train_macro_f1 r1"
      "best_test_macro_f1 r \<le> best_test_macro_f1 r1"
    by blast
  from Cons.IH [OF rest] obtain hs where
    hs: "history r' = history r1 @ hs" "map h_epoch hs = eps"
      "sorted (best_train_macro_f1 r1 # map h_best_train hs)"
      "last (best_train_macro_f1 r1 # map h_best_train hs) = best_train_macro_f1 r'"
      "sorted (best_test_macro_f1 r1 # map h_best_test hs)"
      "last (best_test_macro_f1 r1 # map h_best_test hs) = best_test_macro_f1 r'"
    by blast
  have a1: "history r' = history r @ (h # hs)" using h(1) hs(1) by simp
  have a2: "map h_epoch (h # hs) = ep # eps" using h(2) hs(2) by simp
  have a3: "sorted (best_train_macro_f1 r # map h_best_train (h # hs))"
    using h(3,5) hs(3) by (simp only: list.map sorted2)
  have a4: "last (best_train_macro_f1 r # map h_best_train (h # hs)) = best_train_macro_f1 r'"
    using h(3) hs(4) by simp
  have a5: "sorted (best_test_macro_f1 r # map h_best_test (h # hs))"
    using h(4,6) hs(5) by (simp only: list.map sorted2)
  have a6: "last (best_test_macro_f1 r # map h_best_test (h # hs)) = best_test_macro_f1 r'"
    using h(4) hs(6) by simp
  show ?case
    by (rule exI [of _ "h # hs"]) (intro conjI a1 a2 a3 a4 a5 a6)
qed

lemma final_save_history:
  "final_save exp_dir name r = Inr r' \<Longrightarrow>
   history r' = history r \<and> best_train_macro_f1 r' = best_train_macro_f1 r \<and>
   best_test_macro_f1 r' = best_test_macro_f1 r \<and> model_opt r' = model_opt r"
  by (auto simp add: final_save_def split: option.splits)

lemma train_and_evaluate_Inr:
  assumes "train_and_evaluate E P train_loader test_loader exp_dir name files restore_file m = Inr r"
  shows "\<exists>start_epoch m0 r1.
           resume_point files exp_dir restore_file m = Inr (start_epoch, m0) \<and>
           epoch_loop E P train_loader test_loader exp_dir name
             [start_epoch .. num_epochs P - 1] (init_run m0) = Inr r1 \<and>
           final_save exp_dir name r1 = Inr r"
proof (cases "resume_point files exp_dir restore_file m")
  case (Inl e)
  with assms show ?thesis by (simp add: train_and_evaluate_def)
next
  case (Inr p)
  obtain start_epoch m0 where p: "p = (start_epoch, m0)" by (cases p)
  show ?thesis
  proof (cases "epoch_loop E P train_loader test_loader exp_dir name
             [start_epoch .. num_epochs P - 1] (init_run m0)")
    case (Inl e)
    with assms Inr p show ?thesis by (simp add: train_and_evaluate_def)
  next
    case r1: (Inr r1)
    with assms Inr p have "final_save exp_dir name r1 = Inr r"
      by (simp add: train_and_evaluate_def)
    with Inr p r1 show ?thesis by simp
  qed
qed

theorem best_trackers_nondecreasing:
  "(epoch_loop E P train_loader test_loader exp_dir name eps r0 = Inr r \<longrightarrow>
      sorted (best_train_macro_f1 r0 #
              map h_best_train (drop (length (history r0)) (history r))) \<and>
      sorted (best_test_macro_f1 r0 #
              map h_best_test (drop (length (history r0)) (history r)))) \<and>
   (train_and_evaluate E P train_loader test_loader exp_dir name files None m = Inr r \<longrightarrow>
      sorted (0 # map h_best_train (history r)) \<and>
      sorted (0 # map h_best_test (history r)))"
proof (intro conjI impI)
  assume a: "epoch_loop E P train_loader test_loader exp_dir name eps r0 = Inr r"
  from epoch_loop_best [OF a] obtain hs where
    hs: "history r = history r0 @ hs"
      "sorted (best_train_macro_f1 r0 # map h_best_train hs)"
      "sorted (best_test_macro_f1 r0 # map h_best_test hs)"
    by blast
  have d: "drop (length (history r0)) (history r) = hs" by (simp add: hs(1))
  show "sorted (best_train_macro_f1 r0 #
              map h_best_train (drop (length (history r0)) (history r)))"
    unfolding d by (rule hs(2))
  show "sorted (best_test_macro_f1 r0 #
              map h_best_test (drop (length (history r0)) (history r)))"
    unfolding d by (rule hs(3))
next
  assume a: "train_and_evaluate E P train_loader test_loader exp_dir name files None m = Inr r"
  from train_and_evaluate_Inr [OF a] obtain start_epoch m0 r1 where
    l: "epoch_loop E P train_loader test_loader exp_dir name
          [start_epoch .. num_epochs P - 1] (init_run m0) = Inr r1"
    and f: "final_save exp_dir name r1 = Inr r"
    by blast
  from epoch_loop_best [OF l] obtain hs where
    hs: "history r1 = history (init_run m0) @ hs"
      "sorted (best_train_macro_f1 (init_run m0) # map h_best_train hs)"
      "sorted (best_test_macro_f1 (init_run m0) # map h_best_test hs)"
    by blast
  have h: "history r = hs" using final_save_history [OF f] hs(1) by (simp add: init_run_def)
  have z: "best_train_macro_f1 (init_run m0) = 0" "best_test_macro_f1 (init_run m0) = 0"
    by (simp_all add: init_run_def)
  show "sorted (0 # map h_best_train (history r))" using hs(2) unfolding h z .
  show "sorted (0 # map h_best_test (history r))" using hs(3) unfolding h z .
qed

end
